theory Spec2Isabelle
  imports Complex_Main "HOL-Library.Sublist"
begin

section \<open>The mods development server: CORS and CSP header policy\<close>

text \<open>
  A shallow embedding of \<^verbatim>\<open>tools/mods-dev-server/development-server.js\<close>.
  The module keeps two variables for the lifetime of the process, the set
  \<^verbatim>\<open>allowedOrigins\<close> and the variable \<^verbatim>\<open>declaredExternalResourcesInManifest\<close>;
  \<^verbatim>\<open>cacheRedirect\<close> is the middleware run on every request, \<^verbatim>\<open>readExternalResources\<close>
  the manifest reader and \<^verbatim>\<open>startServer\<close> the entry point.

  Mutation is explicit state passing over the record \<open>world\<close>. A \<^verbatim>\<open>throw\<close> is a
  value of type \<open>error\<close>; the effects that happened before it stay in the returned
  state, as they do in JavaScript. Everything the module calls but does not define
  (\<^verbatim>\<open>fs\<close>, \<^verbatim>\<open>path\<close>, \<^verbatim>\<open>JSON.parse\<close>, number printing) is a parameter, so the theorems hold
  for every behaviour of these collaborators. The block that runs the module as a
  script (\<^verbatim>\<open>require.main === module\<close>) only calls \<^verbatim>\<open>startServer({})\<close> and exits on an
  exception; it adds nothing to the functions below.
\<close>

subsection \<open>JavaScript values\<close>

text \<open>
  The variable \<^verbatim>\<open>declaredExternalResourcesInManifest\<close> is assigned whatever the manifest
  holds in its field, so it ranges over all values \<^verbatim>\<open>JSON.parse\<close> can build.
  \<open>JObject\<close> lists the own properties of an object (keys distinct), \<open>JNumber\<close> carries
  the number a double denotes (the code only ever tests it against zero), and
  \<open>JUndefined\<close> is the value of a property that is absent.
\<close>

datatype jsvalue =
    JUndefined
  | JNull
  | JBoolean bool
  | JNumber real
  | JString string
  | JArray "jsvalue list"
  | JObject "(string \<times> jsvalue) list"

datatype error =
    Thrown string          \<comment> \<open>\<^verbatim>\<open>throw `...`\<close> of a string\<close>
  | TypeError
  | SyntaxError
  | SystemError string     \<comment> \<open>an error of \<^verbatim>\<open>fs\<close>, by its code\<close>
  | ERR_INVALID_CHAR       \<comment> \<open>the \<^verbatim>\<open>TypeError\<close> of \<^verbatim>\<open>res.setHeader\<close> for a value it refuses\<close>

text \<open>The functions of the runtime that the module uses and that have no state.\<close>

record platform =
  path_resolve :: "string \<Rightarrow> string"
  path_join :: "string \<Rightarrow> string \<Rightarrow> string"
  JSON_parse :: "string \<Rightarrow> error + jsvalue"
  Number_toString :: "real \<Rightarrow> string"

text \<open>\<^verbatim>\<open>ToBoolean\<close>, which decides \<^verbatim>\<open>a || b\<close>.\<close>

fun ToBoolean :: "jsvalue \<Rightarrow> bool" where
  "ToBoolean JUndefined = False"
| "ToBoolean JNull = False"
| "ToBoolean (JBoolean b) = b"
| "ToBoolean (JNumber n) = (n \<noteq> 0)"
| "ToBoolean (JString s) = (s \<noteq> [])"
| "ToBoolean (JArray xs) = True"
| "ToBoolean (JObject kvs) = True"

definition logical_or :: "jsvalue \<Rightarrow> jsvalue \<Rightarrow> jsvalue" where
  "logical_or a b = (if ToBoolean a then a else b)"

text \<open>
  \<^verbatim>\<open>json.externalResources\<close>: reading the property throws on \<^verbatim>\<open>null\<close> and
  \<^verbatim>\<open>undefined\<close>; an object yields its own property or \<^verbatim>\<open>undefined\<close>; primitives
  and arrays have no property of that name.
\<close>

fun get_externalResources :: "jsvalue \<Rightarrow> error + jsvalue" where
  "get_externalResources JUndefined = Inl TypeError"
| "get_externalResources JNull = Inl TypeError"
| "get_externalResources (JObject kvs) =
     Inr (case map_of kvs ''externalResources'' of Some v \<Rightarrow> v | None \<Rightarrow> JUndefined)"
| "get_externalResources v = Inr JUndefined"

text \<open>
  The spread \<^verbatim>\<open>...v\<close> inside an array literal iterates \<open>v\<close>: the elements of an
  array, the characters of a string, and a \<^verbatim>\<open>TypeError\<close> for every other value.
\<close>

fun spread :: "jsvalue \<Rightarrow> error + jsvalue list" where
  "spread (JArray xs) = Inr xs"
| "spread (JString s) = Inr (map (\<lambda>c. JString [c]) s)"
| "spread v = Inl TypeError"

fun join :: "string \<Rightarrow> string list \<Rightarrow> string" where
  "join sep [] = []"
| "join sep [x] = x"
| "join sep (x # y # ys) = x @ sep @ join sep (y # ys)"

text \<open>
  \<^verbatim>\<open>ToString\<close>, and \<^verbatim>\<open>Array.prototype.join\<close>, which prints \<^verbatim>\<open>null\<close> and
  \<^verbatim>\<open>undefined\<close> elements as the empty string.
\<close>

fun ToString :: "platform \<Rightarrow> jsvalue \<Rightarrow> string" where
  "ToString P JUndefined = ''undefined''"
| "ToString P JNull = ''null''"
| "ToString P (JBoolean b) = (if b then ''true'' else ''false'')"
| "ToString P (JNumber n) = Number_toString P n"
| "ToString P (JString s) = s"
| "ToString P (JArray xs) =
     join '','' (map (\<lambda>x. case x of JUndefined \<Rightarrow> [] | JNull \<Rightarrow> [] | _ \<Rightarrow> ToString P x) xs)"
| "ToString P (JObject kvs) = ''[object Object]''"

definition element_text :: "platform \<Rightarrow> jsvalue \<Rightarrow> string" where
  "element_text P x = (case x of JUndefined \<Rightarrow> [] | JNull \<Rightarrow> [] | _ \<Rightarrow> ToString P x)"

definition Array_join :: "platform \<Rightarrow> string \<Rightarrow> jsvalue list \<Rightarrow> string" where
  "Array_join P sep xs = join sep (map (element_text P) xs)"

text \<open>\<^verbatim>\<open>Set.prototype.add\<close> on a set kept in insertion order, as \<^verbatim>\<open>values()\<close> lists it.\<close>

definition Set_add :: "'a \<Rightarrow> 'a list \<Rightarrow> 'a list" where
  "Set_add x xs = (if x \<in> set xs then xs else xs @ [x])"

subsection \<open>The state of the process and of its environment\<close>

text \<open>What \<^verbatim>\<open>fs\<close> answers, path by path. It belongs to the environment and may change
  between any two events.\<close>

record filesystem =
  existsSync :: "string \<Rightarrow> bool"
  readdirSync :: "string \<Rightarrow> error + string list"
  readFileSync :: "string \<Rightarrow> error + string"
  watch_error :: "string \<Rightarrow> error option"   \<comment> \<open>\<open>None\<close>: \<^verbatim>\<open>fs.watch\<close> registers the listener\<close>

datatype handler = CacheRedirect | Foreign nat

record config =
  port :: nat
  noCssInject :: bool
  cors :: bool
  "open" :: string
  root_dir :: string       \<comment> \<open>the option \<^verbatim>\<open>root\<close>\<close>
  wait :: nat
  middleware :: "handler list"

record world =
  declaredExternalResourcesInManifest :: jsvalue
  allowedOrigins :: "string list"
  fs :: filesystem
  watchers :: "string list"     \<comment> \<open>paths \<^verbatim>\<open>fs.watch\<close> holds a \<^verbatim>\<open>readExternalResources\<close> listener for\<close>
  fileReads :: "string list"    \<comment> \<open>the calls of \<^verbatim>\<open>fs.readFileSync\<close>, in order\<close>
  started :: "config list"      \<comment> \<open>the calls of \<^verbatim>\<open>devServer.start\<close>\<close>
  warnings :: "string list"     \<comment> \<open>the calls of \<^verbatim>\<open>console.warn\<close>\<close>
  rejections :: "error list"    \<comment> \<open>promises rejected with nobody listening\<close>

text \<open>The module's top level: both variables start empty, nothing is registered.\<close>

definition initial_world :: "filesystem \<Rightarrow> world" where
  "initial_world f =
     \<lparr>declaredExternalResourcesInManifest = JArray [], allowedOrigins = [], fs = f,
      watchers = [], fileReads = [], started = [], warnings = [], rejections = []\<rparr>"

subsection \<open>The middleware\<close>

text \<open>
  Of the request the middleware reads \<^verbatim>\<open>req.headers.origin\<close> (\<open>None\<close> is
  \<^verbatim>\<open>undefined\<close>: the request has no such header) and \<^verbatim>\<open>req.method\<close>. The response
  is its header store, which may hold entries already when the middleware is called.

  \<^verbatim>\<open>res.setHeader(name, value)\<close> of the HTTP library first tests the value with its
  \<^verbatim>\<open>checkInvalidHeaderChar\<close> (the pattern \<^verbatim>\<open>/[^\t\x20-\x7e\x80-\xff]/\<close>) and throws the
  \<^verbatim>\<open>TypeError\<close> \<^verbatim>\<open>ERR_INVALID_CHAR\<close> when it matches, storing nothing; otherwise it
  overwrites the entry. A \<open>char\<close> here is one of the 256 code units up to U+00FF, so
  the characters the library refuses are the control characters other than the tab. A
  string with a code unit above U+00FF, which the library refuses as well, is not a
  value of this model. A statement that follows a \<^verbatim>\<open>throw\<close> does not run: \<open>setHeader\<close>
  takes the exception under way, if any, with the store and passes both on.

  The middleware runs before anything of the response is written, so the library's
  test for headers already sent does not fire; it compares header names without regard
  to case, and the five names the middleware writes differ in more than case.
  \<^verbatim>\<open>next()\<close> is counted and taken to return.
\<close>

record request =
  origin :: "string option"
  "method" :: string

type_synonym response = "string \<rightharpoonup> string"

definition invalidHeaderChar :: "char \<Rightarrow> bool" where
  "invalidHeaderChar c =
     (let n = (of_char c :: nat) in \<not> (n = 9 \<or> (32 \<le> n \<and> n \<le> 126) \<or> 128 \<le> n))"

definition checkInvalidHeaderChar :: "string \<Rightarrow> bool" where
  "checkInvalidHeaderChar v = list_ex invalidHeaderChar v"

fun setHeader :: "string \<Rightarrow> string \<Rightarrow> error option \<times> response \<Rightarrow> error option \<times> response" where
  "setHeader name v (Some e, r) = (Some e, r)"
| "setHeader name v (None, r) =
     (if checkInvalidHeaderChar v then (Some ERR_INVALID_CHAR, r) else (None, r(name \<mapsto> v)))"

record handled =
  exn :: "error option"     \<comment> \<open>what \<^verbatim>\<open>cacheRedirect\<close> threw, if it did\<close>
  res :: response
  nextCalls :: nat          \<comment> \<open>how often \<^verbatim>\<open>next()\<close> was invoked\<close>
  state :: world

definition isCorsRequest :: "request \<Rightarrow> bool" where
  "isCorsRequest req = (origin req \<noteq> None)"

definition requestFromOutsideSandbox :: "request \<Rightarrow> bool" where
  "requestFromOutsideSandbox req = (origin req \<noteq> Some ''null'')"

definition csp_prefix :: string where
  "csp_prefix = ''sandbox allow-scripts; default-src 'self' 'unsafe-eval' 'unsafe-inline' blob: data: ''"

definition cacheRedirect :: "platform \<Rightarrow> request \<Rightarrow> response \<Rightarrow> world \<Rightarrow> handled" where
  "cacheRedirect P req res0 w0 =
    (let allowed = isCorsRequest req \<and> requestFromOutsideSandbox req;
         w1 = (if allowed
               then (case origin req of
                       Some v \<Rightarrow> w0\<lparr>allowedOrigins := Set_add v (allowedOrigins w0)\<rparr>
                     | None \<Rightarrow> w0)
               else w0);
         cors = (if allowed
                 then setHeader ''Access-Control-Allow-Origin'' ''*''
                        (setHeader ''Access-Control-Allow-Headers''
                           ''Origin, X-Requested-With, Content-Type, Accept'' (None, res0))
                 else (None, res0))
     in case setHeader ''Cache-Control'' ''no-store'' cors of
          (Some e, res2) \<Rightarrow> \<lparr>exn = Some e, res = res2, nextCalls = 0, state = w1\<rparr>
        | (None, res2) \<Rightarrow>
            if method req \<noteq> ''GET''
            then \<lparr>exn = None, res = res2, nextCalls = 1, state = w1\<rparr>
            else (case spread (declaredExternalResourcesInManifest w1) of
                    Inl e \<Rightarrow> \<lparr>exn = Some e, res = res2, nextCalls = 0, state = w1\<rparr>
                  | Inr declared \<Rightarrow>
                      (case setHeader ''x-content-security-policy'' ''sandbox allow-scripts''
                              (setHeader ''content-security-policy''
                                 (csp_prefix @
                                  Array_join P '' '' (map JString (allowedOrigins w1) @ declared))
                                 (None, res2)) of
                         (Some e, res3) \<Rightarrow> \<lparr>exn = Some e, res = res3, nextCalls = 0, state = w1\<rparr>
                       | (None, res3) \<Rightarrow> \<lparr>exn = None, res = res3, nextCalls = 1, state = w1\<rparr>)))"

subsection \<open>The manifest reader\<close>

definition manifestName :: string where
  "manifestName = ''mod-manifest.json''"

text \<open>
  \<^verbatim>\<open>readExternalResources\<close> is an \<^verbatim>\<open>async\<close> function with no \<^verbatim>\<open>await\<close>: its body
  runs at the call, and an exception that leaves the body rejects the promise the
  call returns. The first component of the result is that rejection (\<open>None\<close>: the
  promise is fulfilled). \<^verbatim>\<open>fs.readFileSync\<close> stands before the \<^verbatim>\<open>try\<close>; the
  \<^verbatim>\<open>try\<close> block is \<open>try_block\<close>, and \<^verbatim>\<open>catch (err) {}\<close> drops whatever it throws.
\<close>

definition try_block :: "platform \<Rightarrow> string \<Rightarrow> world \<Rightarrow> error + world" where
  "try_block P content w =
     (case JSON_parse P content of
        Inl e \<Rightarrow> Inl e
      | Inr json \<Rightarrow>
          (case get_externalResources json of
             Inl e \<Rightarrow> Inl e
           | Inr v \<Rightarrow> Inr (w\<lparr>declaredExternalResourcesInManifest := logical_or v (JArray [])\<rparr>)))"

definition readExternalResources :: "platform \<Rightarrow> string \<Rightarrow> world \<Rightarrow> error option \<times> world" where
  "readExternalResources P manifestPath w0 =
     (let w1 = w0\<lparr>fileReads := fileReads w0 @ [manifestPath]\<rparr>
      in case readFileSync (fs w1) manifestPath of
           Inl e \<Rightarrow> (Some e, w1)
         | Inr content \<Rightarrow>
             (case try_block P content w1 of
                Inl err \<Rightarrow> (None, w1)
              | Inr w2 \<Rightarrow> (None, w2)))"

text \<open>Both call sites drop the promise; a rejection is then nobody's.\<close>

fun unhandled :: "error option \<times> world \<Rightarrow> world" where
  "unhandled (None, w) = w"
| "unhandled (Some e, w) = w\<lparr>rejections := rejections w @ [e]\<rparr>"

text \<open>
  \<^verbatim>\<open>files.find((fileName) => fileName == manifestName)\<close> yields the first such entry or
  \<^verbatim>\<open>undefined\<close>, and the \<^verbatim>\<open>if\<close> tests that result for truth.
\<close>

definition manifest_found :: "string list \<Rightarrow> bool" where
  "manifest_found files =
     (case find (\<lambda>fileName. fileName = manifestName) files of
        None \<Rightarrow> False
      | Some fileName \<Rightarrow> fileName \<noteq> [])"

definition readExternalResourcesFromManifest :: "platform \<Rightarrow> string \<Rightarrow> world \<Rightarrow> error option \<times> world" where
  "readExternalResourcesFromManifest P rootDirectoryAbsolutePath w0 =
     (case readdirSync (fs w0) rootDirectoryAbsolutePath of
        Inl e \<Rightarrow> (Some e, w0)
      | Inr files \<Rightarrow>
          if manifest_found files
          then (let manifestPath = path_join P rootDirectoryAbsolutePath manifestName;
                    w1 = unhandled (readExternalResources P manifestPath w0)
                in case watch_error (fs w1) manifestPath of
                     Some e \<Rightarrow> (Some e, w1)
                   | None \<Rightarrow> (None, w1\<lparr>watchers := watchers w1 @ [manifestPath]\<rparr>))
          else (None, w0\<lparr>warnings := warnings w0 @
                  [''Could not find a mod-manifest.json in the root directory '' @
                   rootDirectoryAbsolutePath]\<rparr>))"

subsection \<open>Starting the server\<close>

definition defaultConfig :: config where
  "defaultConfig =
     \<lparr>port = 8090, noCssInject = True, cors = False, open = ''/'' @ manifestName,
      root_dir = ''./test/test-files/'', wait = 250, middleware = [CacheRedirect]\<rparr>"

text \<open>
  The caller's \<^verbatim>\<open>partialConfig\<close> is the list of the options it sets, and
  \<^verbatim>\<open>{...defaultConfig, ...partialConfig}\<close> assigns them over the defaults.
\<close>

datatype property =
    Port nat
  | NoCssInject bool
  | Cors bool
  | Open string
  | Root string
  | Wait nat
  | Middleware "handler list"

fun assign :: "property \<Rightarrow> config \<Rightarrow> config" where
  "assign (Port v) c = c\<lparr>port := v\<rparr>"
| "assign (NoCssInject v) c = c\<lparr>noCssInject := v\<rparr>"
| "assign (Cors v) c = c\<lparr>cors := v\<rparr>"
| "assign (Open v) c = c\<lparr>open := v\<rparr>"
| "assign (Root v) c = c\<lparr>root_dir := v\<rparr>"
| "assign (Wait v) c = c\<lparr>wait := v\<rparr>"
| "assign (Middleware v) c = c\<lparr>middleware := v\<rparr>"

definition merged :: "property list \<Rightarrow> config" where
  "merged partialConfig = fold assign partialConfig defaultConfig"

definition path_missing :: "string \<Rightarrow> string" where
  "path_missing p = ''The path '' @ [CHR 0x27] @ p @ [CHR 0x27] @ '' does not exist.''"

definition startServer :: "platform \<Rightarrow> property list \<Rightarrow> world \<Rightarrow> error option \<times> world" where
  "startServer P partialConfig w0 =
     (let config = merged partialConfig;
          rootDirectoryAbsolutePath = path_resolve P (root_dir config)
      in if \<not> existsSync (fs w0) rootDirectoryAbsolutePath
         then (Some (Thrown (path_missing rootDirectoryAbsolutePath)), w0)
         else (case readExternalResourcesFromManifest P rootDirectoryAbsolutePath w0 of
                 (Some e, w1) \<Rightarrow> (Some e, w1)
               | (None, w1) \<Rightarrow> (None, w1\<lparr>started := started w1 @ [config]\<rparr>)))"

subsection \<open>The life of the process after startup\<close>

text \<open>
  After \<^verbatim>\<open>startServer\<close> returns, the module's code runs only from the event loop: the
  middleware on a request, and \<^verbatim>\<open>readExternalResources\<close> once for every listener
  \<^verbatim>\<open>fs.watch\<close> holds for the path that changed. The environment may rewrite the file
  system at any time, which runs no code of the module. A rejected promise is only
  recorded: whether the runtime then ends the process depends on its version, and a
  process that ends has fewer runs than the ones considered here.
\<close>

datatype event =
    Request request response
  | WatchEvent string
  | FsChange filesystem

fun step :: "platform \<Rightarrow> world \<Rightarrow> event \<Rightarrow> world" where
  "step P w (Request req r) = state (cacheRedirect P req r w)"
| "step P w (WatchEvent p) =
     fold (\<lambda>listener v. unhandled (readExternalResources P listener v))
       (filter (\<lambda>listener. listener = p) (watchers w)) w"
| "step P w (FsChange f) = w\<lparr>fs := f\<rparr>"

definition run :: "platform \<Rightarrow> world \<Rightarrow> event list \<Rightarrow> world" where
  "run P w events = foldl (step P) w events"

subsection \<open>Concrete collaborators for the closed instances\<close>

text \<open>
  The theorems below hold for every platform and every file system. Their closed
  instances need one of each: a directory \<^verbatim>\<open>/mod\<close> with given entries and a given
  answer to reading its manifest, path functions on POSIX paths (without
  normalisation), and \<^verbatim>\<open>JSON.parse\<close> restricted to four texts, each with the value
  the real parser builds for it. Every other text counts as malformed here.
\<close>

definition sample_manifests :: "(string \<times> jsvalue) list" where
  \<open>sample_manifests =
     [(''{"externalResources": ["a"]}'', JObject [(''externalResources'', JArray [JString ''a''])]),
      (''{"externalResources": true}'', JObject [(''externalResources'', JBoolean True)]),
      (''{"name": "demo"}'', JObject [(''name'', JString ''demo'')]),
      (''null'', JNull)]\<close>

definition sample_platform :: platform where
  "sample_platform =
     \<lparr>path_resolve = (\<lambda>p. case p of CHR ''/'' # _ \<Rightarrow> p | _ \<Rightarrow> ''/home/dev/'' @ p),
      path_join = (\<lambda>a b. a @ ''/'' @ b),
      JSON_parse = (\<lambda>s. case map_of sample_manifests s of Some v \<Rightarrow> Inr v | None \<Rightarrow> Inl SyntaxError),
      Number_toString = (\<lambda>n. ''0'')\<rparr>"

definition sample_fs :: "string list \<Rightarrow> error + string \<Rightarrow> filesystem" where
  "sample_fs entries manifest =
     \<lparr>existsSync = (\<lambda>p. p = ''/mod''),
      readdirSync = (\<lambda>p. if p = ''/mod'' then Inr entries else Inl (SystemError ''ENOENT'')),
      readFileSync = (\<lambda>p. if p = ''/mod/mod-manifest.json'' then manifest
                           else Inl (SystemError ''ENOENT'')),
      watch_error = (\<lambda>p. if p = ''/mod/mod-manifest.json'' then None
                          else Some (SystemError ''ENOENT''))\<rparr>"

section \<open>Supporting lemmas\<close>





lemma header_constants_valid:
  "\<not> checkInvalidHeaderChar ''*''"
  "\<not> checkInvalidHeaderChar ''Origin, X-Requested-With, Content-Type, Accept''"
  "\<not> checkInvalidHeaderChar ''no-store''"
  "\<not> checkInvalidHeaderChar ''sandbox allow-scripts''"
  "\<not> checkInvalidHeaderChar csp_prefix"
  by (simp_all add: checkInvalidHeaderChar_def invalidHeaderChar_def csp_prefix_def)

lemma cacheRedirect_before_method_test:
  "setHeader ''Cache-Control'' ''no-store''
     (if c then setHeader ''Access-Control-Allow-Origin'' ''*''
                 (setHeader ''Access-Control-Allow-Headers''
                    ''Origin, X-Requested-With, Content-Type, Accept'' (None, r))
      else (None, r)) =
   (None, if c then r(''Access-Control-Allow-Headers'' \<mapsto> ''Origin, X-Requested-With, Content-Type, Accept'',
                      ''Access-Control-Allow-Origin'' \<mapsto> ''*'', ''Cache-Control'' \<mapsto> ''no-store'')
          else r(''Cache-Control'' \<mapsto> ''no-store''))"
  by (simp add: header_constants_valid)

lemma setHeader_csp_pair:
  "(case setHeader ''x-content-security-policy'' ''sandbox allow-scripts''
          (setHeader ''content-security-policy'' v (None, r)) of
      (Some e, res3) \<Rightarrow> \<lparr>exn = Some e, res = res3, nextCalls = 0, state = w\<rparr>
    | (None, res3) \<Rightarrow> \<lparr>exn = None, res = res3, nextCalls = 1, state = w\<rparr>) =
   (if checkInvalidHeaderChar v
    then \<lparr>exn = Some ERR_INVALID_CHAR, res = r, nextCalls = 0, state = w\<rparr>
    else \<lparr>exn = None,
          res = r(''content-security-policy'' \<mapsto> v,
                  ''x-content-security-policy'' \<mapsto> ''sandbox allow-scripts''),
          nextCalls = 1, state = w\<rparr>)"
  by (simp add: header_constants_valid)

lemma cacheRedirect_unfold:
  "cacheRedirect P req r w =
    (let allowed = isCorsRequest req \<and> requestFromOutsideSandbox req;
         w1 = (if allowed
               then (case origin req of
                       Some v \<Rightarrow> w\<lparr>allowedOrigins := Set_add v (allowedOrigins w)\<rparr>
                     | None \<Rightarrow> w)
               else w);
         res2 = (if allowed
                 then r(''Access-Control-Allow-Headers'' \<mapsto> ''Origin, X-Requested-With, Content-Type, Accept'',
                        ''Access-Control-Allow-Origin'' \<mapsto> ''*'', ''Cache-Control'' \<mapsto> ''no-store'')
                 else r(''Cache-Control'' \<mapsto> ''no-store''))
     in if method req \<noteq> ''GET''
        then \<lparr>exn = None, res = res2, nextCalls = 1, state = w1\<rparr>
        else (case spread (declaredExternalResourcesInManifest w1) of
                Inl e \<Rightarrow> \<lparr>exn = Some e, res = res2, nextCalls = 0, state = w1\<rparr>
              | Inr declared \<Rightarrow>
                  if checkInvalidHeaderChar
                       (csp_prefix @ Array_join P '' '' (map JString (allowedOrigins w1) @ declared))
                  then \<lparr>exn = Some ERR_INVALID_CHAR, res = res2, nextCalls = 0, state = w1\<rparr>
                  else \<lparr>exn = None,
                        res = res2(''content-security-policy'' \<mapsto>
                                     csp_prefix @
                                     Array_join P '' '' (map JString (allowedOrigins w1) @ declared),
                                   ''x-content-security-policy'' \<mapsto> ''sandbox allow-scripts''),
                        nextCalls = 1, state = w1\<rparr>))"
  unfolding cacheRedirect_def Let_def cacheRedirect_before_method_test setHeader_csp_pair
  by simp

lemma state_cacheRedirect:
  "state (cacheRedirect P req r w) =
     (case origin req of
        None \<Rightarrow> w
      | Some v \<Rightarrow> if v = ''null'' then w else w\<lparr>allowedOrigins := Set_add v (allowedOrigins w)\<rparr>)"
  by (simp add: cacheRedirect_unfold Let_def isCorsRequest_def requestFromOutsideSandbox_def
      split: option.splits sum.splits)


lemma cacheRedirect_GET_throws:
  assumes "method req = ''GET''"
    and "spread (declaredExternalResourcesInManifest w) = Inl e"
  shows "exn (cacheRedirect P req r w) = Some e \<and>
    nextCalls (cacheRedirect P req r w) = 0 \<and>
    res (cacheRedirect P req r w) ''content-security-policy'' = r ''content-security-policy'' \<and>
    res (cacheRedirect P req r w) ''x-content-security-policy'' = r ''x-content-security-policy''"
  using assms
  by (cases "origin req")
     (simp_all add: cacheRedirect_unfold Let_def isCorsRequest_def requestFromOutsideSandbox_def)




lemma ToBoolean_iff:
  "ToBoolean v \<longleftrightarrow> v \<notin> {JUndefined, JNull, JBoolean False, JNumber 0, JString []}"
  by (cases v) auto

lemma manifest_found_iff: "manifest_found files \<longleftrightarrow> manifestName \<in> set files"
proof -
  have "(case find (\<lambda>fileName. fileName = manifestName) xs of None \<Rightarrow> False | Some fileName \<Rightarrow> fileName \<noteq> [])
        \<longleftrightarrow> manifestName \<in> set xs" for xs
    by (induction xs) (auto simp: manifestName_def)
  then show ?thesis by (simp add: manifest_found_def)
qed

lemma startServer_no_manifest:
  assumes "readdirSync f (path_resolve P (root_dir (merged partialConfig))) = Inr files"
    and "manifestName \<notin> set files"
  shows "watchers (snd (startServer P partialConfig (initial_world f))) = [] \<and>
    declaredExternalResourcesInManifest (snd (startServer P partialConfig (initial_world f))) = JArray []"
  using assms
  by (simp add: startServer_def Let_def readExternalResourcesFromManifest_def manifest_found_iff
      initial_world_def)

lemma step_without_watchers:
  "watchers w = [] \<Longrightarrow>
   watchers (step P w ev) = [] \<and>
   declaredExternalResourcesInManifest (step P w ev) = declaredExternalResourcesInManifest w"
  by (cases ev) (simp_all add: state_cacheRedirect split: option.splits)

lemma run_without_watchers:
  "watchers w = [] \<Longrightarrow>
   watchers (run P w events) = [] \<and>
   declaredExternalResourcesInManifest (run P w events) = declaredExternalResourcesInManifest w"
proof (induction events arbitrary: w)
  case Nil
  then show ?case by (simp add: run_def)
next
  case (Cons ev events)
  from Cons.prems have s: "watchers (step P w ev) = []"
    and d: "declaredExternalResourcesInManifest (step P w ev) = declaredExternalResourcesInManifest w"
    using step_without_watchers by blast+
  have "run P w (ev # events) = run P (step P w ev) events" by (simp add: run_def)
  with Cons.IH [OF s] d show ?case by simp
qed

lemma readExternalResources_read_ok:
  "readFileSync (fs w) p = Inr content \<Longrightarrow>
   readExternalResources P p w =
     (None, case try_block P content (w\<lparr>fileReads := fileReads w @ [p]\<rparr>) of
              Inl err \<Rightarrow> w\<lparr>fileReads := fileReads w @ [p]\<rparr>
            | Inr w2 \<Rightarrow> w2)"
  by (simp add: readExternalResources_def Let_def split: sum.splits)

section \<open>The middleware\<close>




text \<open>
  Claim C2. A request with a non-empty \<^verbatim>\<open>Origin\<close> header other than \<^verbatim>\<open>"null"\<close>
  leaves its origin in \<^verbatim>\<open>allowedOrigins\<close> and gets both CORS headers, whatever its
  method and whatever the manifest variable holds.
\<close>

theorem cacheRedirect_cors_origin:
  assumes "origin req = Some v" and "v \<noteq> []" and "v \<noteq> ''null''"
  shows "v \<in> set (allowedOrigins (state (cacheRedirect P req r w))) \<and>
    res (cacheRedirect P req r w) ''Access-Control-Allow-Origin'' = Some ''*'' \<and>
    res (cacheRedirect P req r w) ''Access-Control-Allow-Headers'' =
      Some ''Origin, X-Requested-With, Content-Type, Accept''"
  using assms
  by (auto simp: cacheRedirect_unfold Let_def isCorsRequest_def
      requestFromOutsideSandbox_def Set_add_def split: sum.splits)

theorem cacheRedirect_cors_origin_witness:
  "allowedOrigins (state (cacheRedirect sample_platform
       \<lparr>origin = Some ''https://spotfire.example'', method = ''POST''\<rparr> Map.empty
       (initial_world (sample_fs [] (Inl (SystemError ''ENOENT'')))))) = [''https://spotfire.example''] \<and>
   res (cacheRedirect sample_platform
       \<lparr>origin = Some ''https://spotfire.example'', method = ''POST''\<rparr> Map.empty
       (initial_world (sample_fs [] (Inl (SystemError ''ENOENT'')))))
     ''Access-Control-Allow-Origin'' = Some ''*''"
  using cacheRedirect_cors_origin [of "\<lparr>origin = Some ''https://spotfire.example'', method = ''POST''\<rparr>"
      "''https://spotfire.example''" sample_platform Map.empty
      "initial_world (sample_fs [] (Inl (SystemError ''ENOENT'')))"]
  by (simp add: state_cacheRedirect Set_add_def initial_world_def)

text \<open>
  Claim C3. A request with \<^verbatim>\<open>Origin: null\<close> (a sandboxed iframe) changes nothing in the
  state of the process, \<^verbatim>\<open>allowedOrigins\<close> in particular, and the middleware leaves
  \<^verbatim>\<open>Access-Control-Allow-Origin\<close> (and \<^verbatim>\<open>Access-Control-Allow-Headers\<close>) of the response
  as it found them.
\<close>

theorem cacheRedirect_sandboxed_origin:
  assumes "origin req = Some ''null''"
  shows "state (cacheRedirect P req r w) = w \<and>
    allowedOrigins (state (cacheRedirect P req r w)) = allowedOrigins w \<and>
    res (cacheRedirect P req r w) ''Access-Control-Allow-Origin'' = r ''Access-Control-Allow-Origin'' \<and>
    res (cacheRedirect P req r w) ''Access-Control-Allow-Headers'' = r ''Access-Control-Allow-Headers''"
  using assms
  by (auto simp: cacheRedirect_unfold Let_def isCorsRequest_def
      requestFromOutsideSandbox_def split: sum.splits)

theorem cacheRedirect_sandboxed_origin_witness:
  "origin \<lparr>origin = Some ''null'', method = ''GET''\<rparr> = Some ''null'' \<and>
   allowedOrigins (state (cacheRedirect sample_platform \<lparr>origin = Some ''null'', method = ''GET''\<rparr>
       Map.empty
       ((initial_world (sample_fs [] (Inl (SystemError ''ENOENT''))))
          \<lparr>allowedOrigins := [''http://localhost:8090'']\<rparr>))) = [''http://localhost:8090''] \<and>
   res (cacheRedirect sample_platform \<lparr>origin = Some ''null'', method = ''GET''\<rparr>
       Map.empty
       ((initial_world (sample_fs [] (Inl (SystemError ''ENOENT''))))
          \<lparr>allowedOrigins := [''http://localhost:8090'']\<rparr>))
     ''Access-Control-Allow-Origin'' = None"
  using cacheRedirect_sandboxed_origin [of "\<lparr>origin = Some ''null'', method = ''GET''\<rparr>"
      sample_platform Map.empty
      "(initial_world (sample_fs [] (Inl (SystemError ''ENOENT''))))
          \<lparr>allowedOrigins := [''http://localhost:8090'']\<rparr>"]
  by simp

text \<open>
  Claim C8. For a method other than \<^verbatim>\<open>GET\<close> the middleware calls \<^verbatim>\<open>next()\<close> once,
  throws nothing, and leaves the two CSP headers of the response as it found them.
\<close>

theorem cacheRedirect_not_GET:
  assumes "method req \<noteq> ''GET''"
  shows "exn (cacheRedirect P req r w) = None \<and>
    nextCalls (cacheRedirect P req r w) = 1 \<and>
    res (cacheRedirect P req r w) ''content-security-policy'' = r ''content-security-policy'' \<and>
    res (cacheRedirect P req r w) ''x-content-security-policy'' = r ''x-content-security-policy''"
  using assms
  by (simp add: cacheRedirect_unfold Let_def)

theorem cacheRedirect_not_GET_witness:
  "method \<lparr>origin = Some ''https://spotfire.example'', method = ''POST''\<rparr> \<noteq> ''GET'' \<and>
   nextCalls (cacheRedirect sample_platform \<lparr>origin = Some ''https://spotfire.example'', method = ''POST''\<rparr>
       Map.empty (initial_world (sample_fs [] (Inl (SystemError ''ENOENT''))))) = 1 \<and>
   res (cacheRedirect sample_platform \<lparr>origin = Some ''https://spotfire.example'', method = ''POST''\<rparr>
       Map.empty (initial_world (sample_fs [] (Inl (SystemError ''ENOENT'')))))
     ''content-security-policy'' = None \<and>
   res (cacheRedirect sample_platform \<lparr>origin = Some ''https://spotfire.example'', method = ''POST''\<rparr>
       Map.empty (initial_world (sample_fs [] (Inl (SystemError ''ENOENT'')))))
     ''x-content-security-policy'' = None"
  using cacheRedirect_not_GET [of "\<lparr>origin = Some ''https://spotfire.example'', method = ''POST''\<rparr>"
      sample_platform Map.empty "initial_world (sample_fs [] (Inl (SystemError ''ENOENT'')))"]
  by simp

text \<open>
  Claim C6 says that a request whose \<^verbatim>\<open>Origin\<close> header is the empty string is not a
  CORS request. The test in the code is \<^verbatim>\<open>req.headers.origin != undefined\<close>, which the
  empty string passes; it also differs from \<^verbatim>\<open>"null"\<close>. Such a request adds the empty
  string to a set that did not hold it and gets \<^verbatim>\<open>Access-Control-Allow-Origin: *\<close>.
\<close>

theorem empty_origin_counterexample:
  "isCorsRequest \<lparr>origin = Some [], method = ''GET''\<rparr> \<and>
   allowedOrigins (initial_world (sample_fs [] (Inl (SystemError ''ENOENT'')))) = [] \<and>
   allowedOrigins (state (cacheRedirect sample_platform \<lparr>origin = Some [], method = ''GET''\<rparr>
       Map.empty (initial_world (sample_fs [] (Inl (SystemError ''ENOENT'')))))) = [[]] \<and>
   res (cacheRedirect sample_platform \<lparr>origin = Some [], method = ''GET''\<rparr>
       Map.empty (initial_world (sample_fs [] (Inl (SystemError ''ENOENT'')))))
     ''Access-Control-Allow-Origin'' = Some ''*''"
  by (simp add: cacheRedirect_unfold Let_def isCorsRequest_def
      requestFromOutsideSandbox_def Set_add_def initial_world_def)

text \<open>
  Claim C6, amended. The middleware classifies a request as a CORS request exactly
  when it carries an \<^verbatim>\<open>Origin\<close> header, whatever the value. A request whose header is
  the empty string is a CORS request from outside the sandbox: the empty string is in
  \<^verbatim>\<open>allowedOrigins\<close> afterwards and \<^verbatim>\<open>Access-Control-Allow-Origin: *\<close> is set.
\<close>

theorem isCorsRequest_header_present:
  "(isCorsRequest req \<longleftrightarrow> (\<exists>v. origin req = Some v)) \<and>
   (origin req = Some [] \<longrightarrow>
      isCorsRequest req \<and> requestFromOutsideSandbox req \<and>
      [] \<in> set (allowedOrigins (state (cacheRedirect P req r w))) \<and>
      res (cacheRedirect P req r w) ''Access-Control-Allow-Origin'' = Some ''*'')"
  by (auto simp: cacheRedirect_unfold Let_def isCorsRequest_def
      requestFromOutsideSandbox_def Set_add_def split: sum.splits)

theorem isCorsRequest_header_present_witness:
  "origin \<lparr>origin = Some [], method = ''POST''\<rparr> = Some [] \<and>
   isCorsRequest \<lparr>origin = Some [], method = ''POST''\<rparr> \<and>
   [] \<in> set (allowedOrigins (state (cacheRedirect sample_platform \<lparr>origin = Some [], method = ''POST''\<rparr>
       Map.empty (initial_world (sample_fs [] (Inl (SystemError ''ENOENT''))))))) \<and>
   res (cacheRedirect sample_platform \<lparr>origin = Some [], method = ''POST''\<rparr>
       Map.empty (initial_world (sample_fs [] (Inl (SystemError ''ENOENT'')))))
     ''Access-Control-Allow-Origin'' = Some ''*''"
  using isCorsRequest_header_present [of "\<lparr>origin = Some [], method = ''POST''\<rparr>"
      sample_platform Map.empty "initial_world (sample_fs [] (Inl (SystemError ''ENOENT'')))"]
  by simp

section \<open>The manifest reader\<close>

text \<open>
  Claim C4 says that a field which is not an array-like value yields the empty
  sequence. The code writes \<^verbatim>\<open>json.externalResources || []\<close>, which replaces falsy
  values only: for the manifest \<^verbatim>\<open>{"externalResources": true}\<close> the variable becomes
  \<^verbatim>\<open>true\<close>.
\<close>

theorem externalResources_not_array_counterexample:
  \<open>JSON_parse sample_platform ''{"externalResources": true}'' =
     Inr (JObject [(''externalResources'', JBoolean True)]) \<and>
   readExternalResources sample_platform ''/mod/mod-manifest.json''
     (initial_world (sample_fs [''mod-manifest.json''] (Inr ''{"externalResources": true}''))) =
     (None, (initial_world (sample_fs [''mod-manifest.json''] (Inr ''{"externalResources": true}'')))
              \<lparr>declaredExternalResourcesInManifest := JBoolean True,
               fileReads := [''/mod/mod-manifest.json'']\<rparr>) \<and>
   JBoolean True \<noteq> JArray []\<close>
  by (simp add: readExternalResources_def try_block_def Let_def logical_or_def sample_platform_def
      sample_manifests_def sample_fs_def initial_world_def)

text \<open>
  Claim C4, amended. When the content is read and parses, the promise is fulfilled and
  the variable is replaced wholesale: by the value of the field \<^verbatim>\<open>externalResources\<close>
  when that value is truthy, array or not; by the empty array when the field is absent,
  when its value is falsy (\<^verbatim>\<open>null\<close>, \<^verbatim>\<open>false\<close>, \<^verbatim>\<open>0\<close>, the empty string), or when the
  content is not an object. Content that parses to \<^verbatim>\<open>null\<close> makes the property read
  throw inside the \<^verbatim>\<open>try\<close>, and the variable keeps its value.
\<close>

theorem readExternalResources_parsed:
  assumes "readFileSync (fs w) p = Inr content"
    and "JSON_parse P content = Inr json"
  shows "fst (readExternalResources P p w) = None \<and>
    declaredExternalResourcesInManifest (snd (readExternalResources P p w)) =
      (case json of
         JNull \<Rightarrow> declaredExternalResourcesInManifest w
       | JUndefined \<Rightarrow> declaredExternalResourcesInManifest w
       | JObject kvs \<Rightarrow>
           (case map_of kvs ''externalResources'' of
              None \<Rightarrow> JArray []
            | Some v \<Rightarrow>
                if v \<in> {JUndefined, JNull, JBoolean False, JNumber 0, JString []}
                then JArray [] else v)
       | _ \<Rightarrow> JArray [])"
proof -
  let ?w1 = "w\<lparr>fileReads := fileReads w @ [p]\<rparr>"
  have r: "readExternalResources P p w =
      (None, case try_block P content ?w1 of Inl err \<Rightarrow> ?w1 | Inr w2 \<Rightarrow> w2)"
    using assms(1) by (rule readExternalResources_read_ok)
  show ?thesis
  proof (cases json)
    case (JObject kvs)
    then show ?thesis
      using assms(2)
      by (simp add: r try_block_def logical_or_def ToBoolean_iff split: option.splits)
  qed (use assms(2) in \<open>simp_all add: r try_block_def logical_or_def\<close>)
qed

theorem readExternalResources_parsed_witness:
  \<open>readExternalResources sample_platform ''/mod/mod-manifest.json''
     ((initial_world (sample_fs [''mod-manifest.json''] (Inr ''{"name": "demo"}'')))
        \<lparr>declaredExternalResourcesInManifest := JArray [JString ''a'']\<rparr>) =
     (None, (initial_world (sample_fs [''mod-manifest.json''] (Inr ''{"name": "demo"}'')))
              \<lparr>declaredExternalResourcesInManifest := JArray [],
               fileReads := [''/mod/mod-manifest.json'']\<rparr>) \<and>
   declaredExternalResourcesInManifest (snd (readExternalResources sample_platform ''/mod/mod-manifest.json''
     (initial_world (sample_fs [''mod-manifest.json''] (Inr ''{"externalResources": ["a"]}''))))) =
     JArray [JString ''a'']\<close>
  using readExternalResources_parsed [of
      \<open>initial_world (sample_fs [''mod-manifest.json''] (Inr ''{"externalResources": ["a"]}''))\<close>
      \<open>''/mod/mod-manifest.json''\<close> \<open>''{"externalResources": ["a"]}''\<close> sample_platform
      \<open>JObject [(''externalResources'', JArray [JString ''a''])]\<close>]
  by (simp add: readExternalResources_def try_block_def Let_def logical_or_def sample_platform_def
      sample_manifests_def sample_fs_def initial_world_def)



text \<open>
  Claim C10 says that only JSON parsing errors are swallowed. The \<^verbatim>\<open>try\<close> block also
  holds the property read \<^verbatim>\<open>json.externalResources\<close>: for the content \<^verbatim>\<open>null\<close> the
  parser succeeds, the read throws a \<^verbatim>\<open>TypeError\<close>, and \<^verbatim>\<open>catch (err) {}\<close> swallows
  it.
\<close>

theorem swallowed_TypeError_counterexample:
  \<open>JSON_parse sample_platform ''null'' = Inr JNull \<and>
   try_block sample_platform ''null''
     ((initial_world (sample_fs [''mod-manifest.json''] (Inr ''null'')))
        \<lparr>declaredExternalResourcesInManifest := JArray [JString ''a''],
         fileReads := [''/mod/mod-manifest.json'']\<rparr>) = Inl TypeError \<and>
   readExternalResources sample_platform ''/mod/mod-manifest.json''
     ((initial_world (sample_fs [''mod-manifest.json''] (Inr ''null'')))
        \<lparr>declaredExternalResourcesInManifest := JArray [JString ''a'']\<rparr>) =
     (None, (initial_world (sample_fs [''mod-manifest.json''] (Inr ''null'')))
              \<lparr>declaredExternalResourcesInManifest := JArray [JString ''a''],
               fileReads := [''/mod/mod-manifest.json'']\<rparr>)\<close>
  by (simp add: readExternalResources_def try_block_def Let_def sample_platform_def
      sample_manifests_def sample_fs_def initial_world_def)

text \<open>
  Claim C10, amended. When reading the content fails, the error leaves
  \<^verbatim>\<open>readExternalResources\<close> uncaught, as the rejection of the promise this \<^verbatim>\<open>async\<close>
  function returns, and the variable keeps its value. The errors that are swallowed
  are those of the \<^verbatim>\<open>try\<close> block: the parser's, and the \<^verbatim>\<open>TypeError\<close> of reading the
  field of a parsed \<^verbatim>\<open>null\<close> (or \<^verbatim>\<open>undefined\<close>, which \<^verbatim>\<open>JSON.parse\<close> never returns).
\<close>

theorem readExternalResources_read_failure:
  "(readFileSync (fs w) p = Inl e \<longrightarrow>
      readExternalResources P p w = (Some e, w\<lparr>fileReads := fileReads w @ [p]\<rparr>) \<and>
      declaredExternalResourcesInManifest (snd (readExternalResources P p w)) =
        declaredExternalResourcesInManifest w) \<and>
   (readFileSync (fs w) p = Inr content \<and>
    try_block P content (w\<lparr>fileReads := fileReads w @ [p]\<rparr>) = Inl err \<longrightarrow>
      readExternalResources P p w = (None, w\<lparr>fileReads := fileReads w @ [p]\<rparr>) \<and>
      (JSON_parse P content = Inl err \<or>
       err = TypeError \<and>
       (JSON_parse P content = Inr JNull \<or> JSON_parse P content = Inr JUndefined)))"
proof -
  have "JSON_parse P content = Inl err \<or>
       err = TypeError \<and>
       (JSON_parse P content = Inr JNull \<or> JSON_parse P content = Inr JUndefined)"
    if "try_block P content v = Inl err" for v
  proof (cases "JSON_parse P content")
    case (Inl a)
    with that show ?thesis by (simp add: try_block_def)
  next
    case (Inr json)
    with that show ?thesis by (cases json) (simp_all add: try_block_def)
  qed
  then show ?thesis
    by (auto simp: readExternalResources_def Let_def)
qed

theorem readExternalResources_read_failure_witness:
  \<open>readFileSync (sample_fs [''mod-manifest.json''] (Inl (SystemError ''EISDIR''))) ''/mod/mod-manifest.json'' =
     Inl (SystemError ''EISDIR'') \<and>
   readExternalResources sample_platform ''/mod/mod-manifest.json''
     ((initial_world (sample_fs [''mod-manifest.json''] (Inl (SystemError ''EISDIR''))))
        \<lparr>declaredExternalResourcesInManifest := JArray [JString ''a'']\<rparr>) =
     (Some (SystemError ''EISDIR''),
      (initial_world (sample_fs [''mod-manifest.json''] (Inl (SystemError ''EISDIR''))))
        \<lparr>declaredExternalResourcesInManifest := JArray [JString ''a''],
         fileReads := [''/mod/mod-manifest.json'']\<rparr>) \<and>
   try_block sample_platform ''{"externalResources": [''
     ((initial_world (sample_fs [''mod-manifest.json''] (Inr ''{"externalResources": ['')))
        \<lparr>fileReads := [''/mod/mod-manifest.json'']\<rparr>) = Inl SyntaxError \<and>
   readExternalResources sample_platform ''/mod/mod-manifest.json''
     (initial_world (sample_fs [''mod-manifest.json''] (Inr ''{"externalResources": [''))) =
     (None, (initial_world (sample_fs [''mod-manifest.json''] (Inr ''{"externalResources": ['')))
              \<lparr>fileReads := [''/mod/mod-manifest.json'']\<rparr>)\<close>
  using readExternalResources_read_failure [of
      \<open>(initial_world (sample_fs [''mod-manifest.json''] (Inl (SystemError ''EISDIR''))))
        \<lparr>declaredExternalResourcesInManifest := JArray [JString ''a'']\<rparr>\<close>
      \<open>''/mod/mod-manifest.json''\<close> \<open>SystemError ''EISDIR''\<close> sample_platform]
    readExternalResources_read_failure [of
      \<open>initial_world (sample_fs [''mod-manifest.json''] (Inr ''{"externalResources": [''))\<close>
      \<open>''/mod/mod-manifest.json''\<close> _ sample_platform \<open>''{"externalResources": [''\<close> SyntaxError]
  by (simp add: sample_fs_def initial_world_def try_block_def sample_platform_def
      sample_manifests_def)

section \<open>Startup and the events after it\<close>

text \<open>
  Claim C7. When the resolved root directory does not exist, \<^verbatim>\<open>startServer\<close> throws the
  message naming the path and returns the state it was given: \<^verbatim>\<open>devServer.start\<close> was
  not called, no file was read, no listener registered.
\<close>

theorem startServer_root_missing:
  assumes "\<not> existsSync (fs w) (path_resolve P (root_dir (merged partialConfig)))"
  shows "startServer P partialConfig w =
      (Some (Thrown (''The path '' @ [CHR 0x27] @ path_resolve P (root_dir (merged partialConfig)) @
                     [CHR 0x27] @ '' does not exist.'')), w) \<and>
    started (snd (startServer P partialConfig w)) = started w \<and>
    fileReads (snd (startServer P partialConfig w)) = fileReads w \<and>
    watchers (snd (startServer P partialConfig w)) = watchers w"
  using assms by (simp add: startServer_def Let_def path_missing_def)

theorem startServer_root_missing_witness:
  "\<not> existsSync (sample_fs [] (Inl (SystemError ''ENOENT''))) ''/home/dev/./test/test-files/'' \<and>
   startServer sample_platform [Port 8080] (initial_world (sample_fs [] (Inl (SystemError ''ENOENT'')))) =
     (Some (Thrown ''The path '/home/dev/./test/test-files/' does not exist.''),
      initial_world (sample_fs [] (Inl (SystemError ''ENOENT'')))) \<and>
   started (snd (startServer sample_platform [Port 8080]
      (initial_world (sample_fs [] (Inl (SystemError ''ENOENT'')))))) = []"
  using startServer_root_missing [of "initial_world (sample_fs [] (Inl (SystemError ''ENOENT'')))"
      sample_platform "[Port 8080]"]
  by (simp add: merged_def defaultConfig_def sample_platform_def sample_fs_def initial_world_def)

text \<open>
  Claim C9. When the listing of the root directory at startup has no entry
  \<^verbatim>\<open>mod-manifest.json\<close>, then after \<^verbatim>\<open>startServer\<close> and after any sequence of requests,
  watch events and changes of the file system (the creation of the manifest among
  them) no listener is registered and the manifest variable is still the empty array.
\<close>

theorem no_manifest_at_startup:
  assumes "readdirSync f (path_resolve P (root_dir (merged partialConfig))) = Inr files"
    and "manifestName \<notin> set files"
  shows "watchers (run P (snd (startServer P partialConfig (initial_world f))) events) = [] \<and>
    declaredExternalResourcesInManifest
      (run P (snd (startServer P partialConfig (initial_world f))) events) = JArray []"
proof -
  let ?w = "snd (startServer P partialConfig (initial_world f))"
  from assms have "watchers ?w = []" and "declaredExternalResourcesInManifest ?w = JArray []"
    using startServer_no_manifest by blast+
  with run_without_watchers [of ?w P events] show ?thesis by simp
qed

theorem no_manifest_at_startup_witness:
  \<open>readdirSync (sample_fs [''index.html''] (Inl (SystemError ''ENOENT''))) ''/mod'' = Inr [''index.html''] \<and>
   fst (startServer sample_platform [Root ''/mod'']
          (initial_world (sample_fs [''index.html''] (Inl (SystemError ''ENOENT''))))) = None \<and>
   declaredExternalResourcesInManifest
     (run sample_platform
        (snd (startServer sample_platform [Root ''/mod'']
           (initial_world (sample_fs [''index.html''] (Inl (SystemError ''ENOENT''))))))
        [FsChange (sample_fs [''index.html'', ''mod-manifest.json''] (Inr ''{"externalResources": ["a"]}'')),
         WatchEvent ''/mod/mod-manifest.json'',
         Request \<lparr>origin = None, method = ''GET''\<rparr> Map.empty]) = JArray []\<close>
  using no_manifest_at_startup [of
      \<open>sample_fs [''index.html''] (Inl (SystemError ''ENOENT''))\<close> sample_platform \<open>[Root ''/mod'']\<close>
      \<open>[''index.html'']\<close>
      \<open>[FsChange (sample_fs [''index.html'', ''mod-manifest.json''] (Inr ''{"externalResources": ["a"]}'')),
         WatchEvent ''/mod/mod-manifest.json'',
         Request \<lparr>origin = None, method = ''GET''\<rparr> Map.empty]\<close>]
  by (simp add: merged_def defaultConfig_def sample_platform_def sample_fs_def manifestName_def
      startServer_def Let_def readExternalResourcesFromManifest_def manifest_found_def
      initial_world_def)

end
